theory Spec2Isabelle
  imports Complex_Main "HOL-Library.Word"
begin

section \<open>Python values\<close>

text \<open>
  The service is one Python module, \<^verbatim>\<open>main.py\<close>: a FastAPI application with two
  routes. Its own code is request validation, the mapping of a layer type to a rendering
  script, one call of the imagery provider, and file and stream plumbing. Everything else is
  done by libraries (pydantic, sentinelhub, PIL, Starlette); what they compute is not code of
  the service and is taken as a parameter below (record \<open>libs\<close>).

  A Python \<^verbatim>\<open>str\<close> is modelled as a \<^typ>\<open>string\<close> holding the UTF-8 bytes of the
  text (the module has Russian messages and comments), \<^verbatim>\<open>bytes\<close> as a list of
  8-bit words, and a Python \<^verbatim>\<open>int\<close> as \<^typ>\<open>int\<close>. The module never computes with
  a \<^verbatim>\<open>float\<close>: it hands the numbers of the bounding box to the provider library
  as they are, so the type of floats is a type parameter \<open>'f\<close>.

  Where the source is quoted below, a Russian string literal is written
  \<^verbatim>\<open>"..."\<close>; its bytes are the constant defined next to the quotation.
\<close>

type_synonym bytes = "8 word list"

text \<open>
  The exceptions the module can meet. \<open>HTTPException status_code detail\<close> is FastAPI's
  class, which the module raises itself; \<open>Exception m\<close> stands for any other instance of
  Python's \<^verbatim>\<open>Exception\<close> raised by a library call, \<open>m\<close> being what \<^verbatim>\<open>str(e)\<close>
  gives for it. HTTPException is a subclass of Exception, so \<^verbatim>\<open>except Exception\<close>
  catches both. (Exceptions that are not instances of Exception, such as KeyboardInterrupt
  and SystemExit, end the process and are outside the model.)
\<close>

datatype py_exception = HTTPException int string | Exception string

text \<open>
  Python's truth value of an optional string: \<^verbatim>\<open>not v\<close> holds for \<^verbatim>\<open>None\<close> and
  for the empty string.
\<close>

definition truthy :: "string option \<Rightarrow> bool" where
  "truthy v = (case v of None \<Rightarrow> False | Some s \<Rightarrow> s \<noteq> [])"

section \<open>The request model\<close>

text \<open>
  The body of a POST request, after JSON decoding.
\<close>

datatype 'f json =
    JNull
  | JBool bool
  | JNumber 'f
  | JString string
  | JArray "'f json list"
  | JObject "(string \<times> 'f json) list"

text \<open>
  \<^verbatim>\<open>
  class BboxRequest(BaseModel):
      bbox: List[float]
      layer_type: Literal["true_color", "ndvi"]
  \<close>
\<close>

record 'f BboxRequest =
  bbox :: "'f list"
  layer_type :: string

text \<open>The two values of the \<^verbatim>\<open>Literal\<close>.\<close>

definition layer_types :: "string list" where
  "layer_types = [''true_color'', ''ndvi'']"

text \<open>
  Validation of a body against the model, as FastAPI runs it before it calls the handler.
  \<open>bbox\<close> must be a JSON array each of whose entries validates as a float (the model
  gives the list no length); \<open>layer_type\<close> must be a string equal to one of the two
  literals. Which JSON values pydantic takes for a float is the library's matter (its lax
  mode also converts some strings), so the validator of one entry is the parameter \<open>vf\<close>.
  Python's JSON decoder keeps the last of several equal keys of an object; fields the
  model does not declare are ignored.
\<close>

fun validate_bbox :: "('f json \<Rightarrow> 'f option) \<Rightarrow> 'f json \<Rightarrow> 'f list option" where
  "validate_bbox vf (JArray xs) = those (map vf xs)"
| "validate_bbox vf _ = None"

fun validate_layer_type :: "'f json \<Rightarrow> string option" where
  "validate_layer_type (JString s) = (if s \<in> set layer_types then Some s else None)"
| "validate_layer_type _ = None"

fun json_field :: "'f json \<Rightarrow> string \<Rightarrow> 'f json option" where
  "json_field (JObject kvs) k = map_of (rev kvs) k"
| "json_field _ k = None"

definition validate_BboxRequest ::
  "('f json \<Rightarrow> 'f option) \<Rightarrow> 'f json \<Rightarrow> 'f BboxRequest option" where
  "validate_BboxRequest vf body =
     (case (json_field body ''bbox'', json_field body ''layer_type'') of
        (Some b, Some l) \<Rightarrow>
          (case (validate_bbox vf b, validate_layer_type l) of
             (Some xs, Some t) \<Rightarrow> Some \<lparr>bbox = xs, layer_type = t\<rparr>
           | _ \<Rightarrow> None)
      | _ \<Rightarrow> None)"

section \<open>Configuration at start-up\<close>

text \<open>
  \<^verbatim>\<open>
  load_dotenv()
  ...
  SH_CLIENT_ID = os.getenv("ClientID")
  SH_CLIENT_SECRET = os.getenv("ClientSecret")

  if not SH_CLIENT_ID or not SH_CLIENT_SECRET:
      raise ValueError("...")

  config = SHConfig()
  config.sh_client_id = SH_CLIENT_ID
  config.sh_client_secret = SH_CLIENT_SECRET
  \<close>
  The environment is a map from names to values. \<^verbatim>\<open>load_dotenv()\<close> adds the
  variables of a \<^verbatim>\<open>.env\<close> file (the map \<open>dotenv\<close>, empty when there is no file)
  to the environment of the process, keeping the value of every variable that is already
  set. The module code runs once, when the application is imported; an exception there
  stops the process before it serves a request.
\<close>

record SHConfig =
  sh_client_id :: string
  sh_client_secret :: string

definition load_dotenv :: "(string \<rightharpoonup> string) \<Rightarrow> (string \<rightharpoonup> string) \<Rightarrow> (string \<rightharpoonup> string)" where
  "load_dotenv dotenv environ = dotenv ++ environ"

text \<open>
  The message of the ValueError (in English: please specify SH_CLIENT_ID and
  SH_CLIENT_SECRET).
\<close>

definition ValueError_message :: string where
  \<open>ValueError_message =
    [CHR 0xD0, CHR 0x9F, CHR 0xD0, CHR 0xBE, CHR 0xD0, CHR 0xB6, CHR 0xD0, CHR 0xB0, CHR 0xD0,
      CHR 0xBB, CHR 0xD1, CHR 0x83, CHR 0xD0, CHR 0xB9, CHR 0xD1, CHR 0x81, CHR 0xD1, CHR 0x82,
      CHR 0xD0, CHR 0xB0] @ '', '' @ [CHR 0xD1, CHR 0x83, CHR 0xD0, CHR 0xBA, CHR 0xD0,
      CHR 0xB0, CHR 0xD0, CHR 0xB6, CHR 0xD0, CHR 0xB8, CHR 0xD1, CHR 0x82, CHR 0xD0,
      CHR 0xB5] @ '' SH_CLIENT_ID '' @ [CHR 0xD0, CHR 0xB8] @ '' SH_CLIENT_SECRET.''\<close>

definition startup :: "(string \<rightharpoonup> string) \<Rightarrow> (string \<rightharpoonup> string) \<Rightarrow> py_exception + SHConfig" where
  "startup dotenv environ =
     (let getenv = load_dotenv dotenv environ;
          SH_CLIENT_ID = getenv ''ClientID'';
          SH_CLIENT_SECRET = getenv ''ClientSecret''
      in if \<not> truthy SH_CLIENT_ID \<or> \<not> truthy SH_CLIENT_SECRET
         then Inl (Exception ValueError_message)
         else Inr \<lparr>sh_client_id = the SH_CLIENT_ID, sh_client_secret = the SH_CLIENT_SECRET\<rparr>)"

section \<open>The rendering scripts\<close>

text \<open>
  The two evalscripts, byte for byte as the module's string literals have them (each
  starts with the line break after the opening quotes), and the dictionary
  \<^verbatim>\<open>EVALSCRIPTS\<close> that maps a layer type to its script.
\<close>

definition evalscript_true_color :: string where
  \<open>evalscript_true_color =
    ''\<newline>'' @
    ''    //VERSION=3\<newline>'' @
    ''    function setup() {\<newline>'' @
    ''        return {\<newline>'' @
    ''            input: ["B04", "B03", "B02"], // '' @ [CHR 0xD0, CHR 0x9A, CHR 0xD1, CHR 0x80,
      CHR 0xD0, CHR 0xB0, CHR 0xD1, CHR 0x81, CHR 0xD0, CHR 0xBD, CHR 0xD1, CHR 0x8B, CHR 0xD0,
      CHR 0xB9] @ '', '' @ [CHR 0xD0, CHR 0x97, CHR 0xD0, CHR 0xB5, CHR 0xD0, CHR 0xBB,
      CHR 0xD1, CHR 0x91, CHR 0xD0, CHR 0xBD, CHR 0xD1, CHR 0x8B, CHR 0xD0, CHR 0xB9] @ '', '' @
      [CHR 0xD0, CHR 0xA1, CHR 0xD0, CHR 0xB8, CHR 0xD0, CHR 0xBD, CHR 0xD0, CHR 0xB8, CHR 0xD0,
      CHR 0xB9] @ '' '' @ [CHR 0xD0, CHR 0xBA, CHR 0xD0, CHR 0xB0, CHR 0xD0, CHR 0xBD, CHR 0xD0,
      CHR 0xB0, CHR 0xD0, CHR 0xBB, CHR 0xD1, CHR 0x8B] @ ''\<newline>'' @
    ''            output: { bands: 3 }\<newline>'' @
    ''        };\<newline>'' @
    ''    }\<newline>'' @
    ''\<newline>'' @
    ''    function evaluatePixel(sample) {\<newline>'' @
    ''        return [2.5 * sample.B04, 2.5 * sample.B03, 2.5 * sample.B02];\<newline>'' @
    ''    }\<newline>''\<close>

definition evalscript_ndvi :: string where
  \<open>evalscript_ndvi =
    ''\<newline>'' @
    ''    //VERSION=3\<newline>'' @
    ''    // '' @ [CHR 0xD0, CHR 0xAD, CHR 0xD1, CHR 0x82, CHR 0xD0, CHR 0xBE, CHR 0xD1,
      CHR 0x82] @ '' '' @ [CHR 0xD1, CHR 0x81, CHR 0xD0, CHR 0xBA, CHR 0xD1, CHR 0x80, CHR 0xD0,
      CHR 0xB8, CHR 0xD0, CHR 0xBF, CHR 0xD1, CHR 0x82] @ '' '' @ [CHR 0xD0, CHR 0xB2, CHR 0xD0,
      CHR 0xB8, CHR 0xD0, CHR 0xB7, CHR 0xD1, CHR 0x83, CHR 0xD0, CHR 0xB0, CHR 0xD0, CHR 0xBB,
      CHR 0xD0, CHR 0xB8, CHR 0xD0, CHR 0xB7, CHR 0xD0, CHR 0xB8, CHR 0xD1, CHR 0x80, CHR 0xD1,
      CHR 0x83, CHR 0xD0, CHR 0xB5, CHR 0xD1, CHR 0x82] @
      '' NDVI (Normalized Difference Vegetation Index)\<newline>'' @
    ''    \<newline>'' @
    ''    function setup() {\<newline>'' @
    ''        return {\<newline>'' @
    ''            input: ["B04", "B08"], // '' @ [CHR 0xD0, CHR 0x9A, CHR 0xD1, CHR 0x80,
      CHR 0xD0, CHR 0xB0, CHR 0xD1, CHR 0x81, CHR 0xD0, CHR 0xBD, CHR 0xD1, CHR 0x8B, CHR 0xD0,
      CHR 0xB9] @ '' '' @ [CHR 0xD0, CHR 0xB8] @ '' '' @ [CHR 0xD0, CHR 0xB1, CHR 0xD0,
      CHR 0xBB, CHR 0xD0, CHR 0xB8, CHR 0xD0, CHR 0xB6, CHR 0xD0, CHR 0xBD, CHR 0xD0, CHR 0xB8,
      CHR 0xD0, CHR 0xB9] @ '' '' @ [CHR 0xD0, CHR 0xB8, CHR 0xD0, CHR 0xBD, CHR 0xD1, CHR 0x84,
      CHR 0xD1, CHR 0x80, CHR 0xD0, CHR 0xB0, CHR 0xD0, CHR 0xBA, CHR 0xD1, CHR 0x80, CHR 0xD0,
      CHR 0xB0, CHR 0xD1, CHR 0x81, CHR 0xD0, CHR 0xBD, CHR 0xD1, CHR 0x8B, CHR 0xD0,
      CHR 0xB9] @ '' '' @ [CHR 0xD0, CHR 0xBA, CHR 0xD0, CHR 0xB0, CHR 0xD0, CHR 0xBD, CHR 0xD0,
      CHR 0xB0, CHR 0xD0, CHR 0xBB, CHR 0xD1, CHR 0x8B] @ ''\<newline>'' @
    ''            output: { bands: 3 }   // '' @ [CHR 0xD0, CHR 0x92, CHR 0xD1, CHR 0x8B,
      CHR 0xD1, CHR 0x85, CHR 0xD0, CHR 0xBE, CHR 0xD0, CHR 0xB4, CHR 0xD0, CHR 0xBD, CHR 0xD0,
      CHR 0xBE, CHR 0xD0, CHR 0xB5] @ '' '' @ [CHR 0xD0, CHR 0xB8, CHR 0xD0, CHR 0xB7, CHR 0xD0,
      CHR 0xBE, CHR 0xD0, CHR 0xB1, CHR 0xD1, CHR 0x80, CHR 0xD0, CHR 0xB0, CHR 0xD0, CHR 0xB6,
      CHR 0xD0, CHR 0xB5, CHR 0xD0, CHR 0xBD, CHR 0xD0, CHR 0xB8, CHR 0xD0, CHR 0xB5] @
      '' RGB\<newline>'' @
    ''        };\<newline>'' @
    ''    }\<newline>'' @
    ''\<newline>'' @
    ''    // '' @ [CHR 0xD0, CHR 0xA4, CHR 0xD1, CHR 0x83, CHR 0xD0, CHR 0xBD, CHR 0xD0,
      CHR 0xBA, CHR 0xD1, CHR 0x86, CHR 0xD0, CHR 0xB8, CHR 0xD1, CHR 0x8F] @ '' '' @ [CHR 0xD0,
      CHR 0xB4, CHR 0xD0, CHR 0xBB, CHR 0xD1, CHR 0x8F] @ '' '' @ [CHR 0xD0, CHR 0xBF, CHR 0xD1,
      CHR 0x80, CHR 0xD0, CHR 0xB8, CHR 0xD0, CHR 0xBC, CHR 0xD0, CHR 0xB5, CHR 0xD0, CHR 0xBD,
      CHR 0xD0, CHR 0xB5, CHR 0xD0, CHR 0xBD, CHR 0xD0, CHR 0xB8, CHR 0xD1, CHR 0x8F] @ '' '' @
      [CHR 0xD1, CHR 0x86, CHR 0xD0, CHR 0xB2, CHR 0xD0, CHR 0xB5, CHR 0xD1, CHR 0x82, CHR 0xD0,
      CHR 0xBE, CHR 0xD0, CHR 0xB2, CHR 0xD0, CHR 0xBE, CHR 0xD0, CHR 0xB9] @ '' '' @ [CHR 0xD0,
      CHR 0xBA, CHR 0xD0, CHR 0xB0, CHR 0xD1, CHR 0x80, CHR 0xD1, CHR 0x82, CHR 0xD1,
      CHR 0x8B] @ '' '' @ [CHR 0xD0, CHR 0xBA] @ '' '' @ [CHR 0xD0, CHR 0xB7, CHR 0xD0,
      CHR 0xBD, CHR 0xD0, CHR 0xB0, CHR 0xD1, CHR 0x87, CHR 0xD0, CHR 0xB5, CHR 0xD0, CHR 0xBD,
      CHR 0xD0, CHR 0xB8, CHR 0xD1, CHR 0x8E] @ '' NDVI\<newline>'' @
    ''    const ramp = [\<newline>'' @
    ''        [ -0.2, 0xc1a48e ], // '' @ [CHR 0xD0, CHR 0xBF, CHR 0xD0, CHR 0xBE, CHR 0xD1,
      CHR 0x87, CHR 0xD0, CHR 0xB2, CHR 0xD0, CHR 0xB0] @ ''/'' @ [CHR 0xD0, CHR 0xBF, CHR 0xD1,
      CHR 0x83, CHR 0xD1, CHR 0x81, CHR 0xD1, CHR 0x82, CHR 0xD1, CHR 0x8B, CHR 0xD0, CHR 0xBD,
      CHR 0xD1, CHR 0x8F] @ '' - '' @ [CHR 0xD0, CHR 0xBA, CHR 0xD0, CHR 0xBE, CHR 0xD1,
      CHR 0x80, CHR 0xD0, CHR 0xB8, CHR 0xD1, CHR 0x87, CHR 0xD0, CHR 0xBD, CHR 0xD0, CHR 0xB5,
      CHR 0xD0, CHR 0xB2, CHR 0xD1, CHR 0x8B, CHR 0xD0, CHR 0xB9] @ ''\<newline>'' @
    ''        [ 0.0, 0xf0e0b2 ],  // '' @ [CHR 0xD0, CHR 0xBE, CHR 0xD1, CHR 0x87, CHR 0xD0,
      CHR 0xB5, CHR 0xD0, CHR 0xBD, CHR 0xD1, CHR 0x8C] @ '' '' @ [CHR 0xD0, CHR 0xBD, CHR 0xD0,
      CHR 0xB8, CHR 0xD0, CHR 0xB7, CHR 0xD0, CHR 0xBA, CHR 0xD0, CHR 0xB0, CHR 0xD1,
      CHR 0x8F] @ '' '' @ [CHR 0xD1, CHR 0x80, CHR 0xD0, CHR 0xB0, CHR 0xD1, CHR 0x81, CHR 0xD1,
      CHR 0x82, CHR 0xD0, CHR 0xB8, CHR 0xD1, CHR 0x82, CHR 0xD0, CHR 0xB5, CHR 0xD0, CHR 0xBB,
      CHR 0xD1, CHR 0x8C, CHR 0xD0, CHR 0xBD, CHR 0xD0, CHR 0xBE, CHR 0xD1, CHR 0x81, CHR 0xD1,
      CHR 0x82, CHR 0xD1, CHR 0x8C] @ '' - '' @ [CHR 0xD0, CHR 0xB1, CHR 0xD0, CHR 0xB5,
      CHR 0xD0, CHR 0xB6, CHR 0xD0, CHR 0xB5, CHR 0xD0, CHR 0xB2, CHR 0xD1, CHR 0x8B, CHR 0xD0,
      CHR 0xB9] @ ''\<newline>'' @
    ''        [ 0.2, 0x336600 ],  // '' @ [CHR 0xD1, CHR 0x81, CHR 0xD1, CHR 0x80, CHR 0xD0,
      CHR 0xB5, CHR 0xD0, CHR 0xB4, CHR 0xD0, CHR 0xBD, CHR 0xD1, CHR 0x8F, CHR 0xD1,
      CHR 0x8F] @ '' '' @ [CHR 0xD1, CHR 0x80, CHR 0xD0, CHR 0xB0, CHR 0xD1, CHR 0x81, CHR 0xD1,
      CHR 0x82, CHR 0xD0, CHR 0xB8, CHR 0xD1, CHR 0x82, CHR 0xD0, CHR 0xB5, CHR 0xD0, CHR 0xBB,
      CHR 0xD1, CHR 0x8C, CHR 0xD0, CHR 0xBD, CHR 0xD0, CHR 0xBE, CHR 0xD1, CHR 0x81, CHR 0xD1,
      CHR 0x82, CHR 0xD1, CHR 0x8C] @ '' - '' @ [CHR 0xD1, CHR 0x82, CHR 0xD1, CHR 0x91,
      CHR 0xD0, CHR 0xBC, CHR 0xD0, CHR 0xBD, CHR 0xD0, CHR 0xBE] @ ''-'' @ [CHR 0xD0, CHR 0xB7,
      CHR 0xD0, CHR 0xB5, CHR 0xD0, CHR 0xBB, CHR 0xD1, CHR 0x91, CHR 0xD0, CHR 0xBD, CHR 0xD1,
      CHR 0x8B, CHR 0xD0, CHR 0xB9] @ ''\<newline>'' @
    ''        [ 0.6, 0x00ff00 ],  // '' @ [CHR 0xD0, CHR 0xB2, CHR 0xD1, CHR 0x8B, CHR 0xD1,
      CHR 0x81, CHR 0xD0, CHR 0xBE, CHR 0xD0, CHR 0xBA, CHR 0xD0, CHR 0xB0, CHR 0xD1,
      CHR 0x8F] @ '' '' @ [CHR 0xD1, CHR 0x80, CHR 0xD0, CHR 0xB0, CHR 0xD1, CHR 0x81, CHR 0xD1,
      CHR 0x82, CHR 0xD0, CHR 0xB8, CHR 0xD1, CHR 0x82, CHR 0xD0, CHR 0xB5, CHR 0xD0, CHR 0xBB,
      CHR 0xD1, CHR 0x8C, CHR 0xD0, CHR 0xBD, CHR 0xD0, CHR 0xBE, CHR 0xD1, CHR 0x81, CHR 0xD1,
      CHR 0x82, CHR 0xD1, CHR 0x8C] @ '' - '' @ [CHR 0xD1, CHR 0x8F, CHR 0xD1, CHR 0x80,
      CHR 0xD0, CHR 0xBA, CHR 0xD0, CHR 0xBE] @ ''-'' @ [CHR 0xD0, CHR 0xB7, CHR 0xD0, CHR 0xB5,
      CHR 0xD0, CHR 0xBB, CHR 0xD1, CHR 0x91, CHR 0xD0, CHR 0xBD, CHR 0xD1, CHR 0x8B, CHR 0xD0,
      CHR 0xB9] @ ''\<newline>'' @
    ''        [ 1.0, 0x00ff00 ]   // '' @ [CHR 0xD0, CHR 0xBE, CHR 0xD1, CHR 0x87, CHR 0xD0,
      CHR 0xB5, CHR 0xD0, CHR 0xBD, CHR 0xD1, CHR 0x8C] @ '' '' @ [CHR 0xD0, CHR 0xB2, CHR 0xD1,
      CHR 0x8B, CHR 0xD1, CHR 0x81, CHR 0xD0, CHR 0xBE, CHR 0xD0, CHR 0xBA, CHR 0xD0, CHR 0xB0,
      CHR 0xD1, CHR 0x8F] @ '' '' @ [CHR 0xD1, CHR 0x80, CHR 0xD0, CHR 0xB0, CHR 0xD1, CHR 0x81,
      CHR 0xD1, CHR 0x82, CHR 0xD0, CHR 0xB8, CHR 0xD1, CHR 0x82, CHR 0xD0, CHR 0xB5, CHR 0xD0,
      CHR 0xBB, CHR 0xD1, CHR 0x8C, CHR 0xD0, CHR 0xBD, CHR 0xD0, CHR 0xBE, CHR 0xD1, CHR 0x81,
      CHR 0xD1, CHR 0x82, CHR 0xD1, CHR 0x8C] @ '' - '' @ [CHR 0xD1, CHR 0x8F, CHR 0xD1,
      CHR 0x80, CHR 0xD0, CHR 0xBA, CHR 0xD0, CHR 0xBE] @ ''-'' @ [CHR 0xD0, CHR 0xB7, CHR 0xD0,
      CHR 0xB5, CHR 0xD0, CHR 0xBB, CHR 0xD1, CHR 0x91, CHR 0xD0, CHR 0xBD, CHR 0xD1, CHR 0x8B,
      CHR 0xD0, CHR 0xB9] @ ''\<newline>'' @
    ''    ];\<newline>'' @
    ''\<newline>'' @
    ''    const visualizer = new ColorRampVisualizer(ramp);\<newline>'' @
    ''\<newline>'' @
    ''    function evaluatePixel(sample) {\<newline>'' @
    ''        // '' @ [CHR 0xD0, CHR 0xA4, CHR 0xD0, CHR 0xBE, CHR 0xD1, CHR 0x80, CHR 0xD0,
      CHR 0xBC, CHR 0xD1, CHR 0x83, CHR 0xD0, CHR 0xBB, CHR 0xD0, CHR 0xB0] @
      '' NDVI\<newline>'' @
    ''        let ndvi = (sample.B08 - sample.B04) / (sample.B08 + sample.B04);\<newline>'' @
    ''        \<newline>'' @
    ''        // '' @ [CHR 0xD0, CHR 0x92, CHR 0xD0, CHR 0xBE, CHR 0xD0, CHR 0xB7, CHR 0xD0,
      CHR 0xB2, CHR 0xD1, CHR 0x80, CHR 0xD0, CHR 0xB0, CHR 0xD1, CHR 0x89, CHR 0xD0, CHR 0xB0,
      CHR 0xD0, CHR 0xB5, CHR 0xD0, CHR 0xBC] @ '' '' @ [CHR 0xD1, CHR 0x86, CHR 0xD0, CHR 0xB2,
      CHR 0xD0, CHR 0xB5, CHR 0xD1, CHR 0x82] @ '' '' @ [CHR 0xD0, CHR 0xB2] @ '' '' @
      [CHR 0xD0, CHR 0xB7, CHR 0xD0, CHR 0xB0, CHR 0xD0, CHR 0xB2, CHR 0xD0, CHR 0xB8, CHR 0xD1,
      CHR 0x81, CHR 0xD0, CHR 0xB8, CHR 0xD0, CHR 0xBC, CHR 0xD0, CHR 0xBE, CHR 0xD1, CHR 0x81,
      CHR 0xD1, CHR 0x82, CHR 0xD0, CHR 0xB8] @ '' '' @ [CHR 0xD0, CHR 0xBE, CHR 0xD1,
      CHR 0x82] @ '' '' @ [CHR 0xD0, CHR 0xB7, CHR 0xD0, CHR 0xBD, CHR 0xD0, CHR 0xB0, CHR 0xD1,
      CHR 0x87, CHR 0xD0, CHR 0xB5, CHR 0xD0, CHR 0xBD, CHR 0xD0, CHR 0xB8, CHR 0xD1,
      CHR 0x8F] @ '' NDVI\<newline>'' @
    ''        return visualizer.process(ndvi);\<newline>'' @
    ''    }\<newline>''\<close>

definition EVALSCRIPTS :: "string \<rightharpoonup> string" where
  "EVALSCRIPTS = [''true_color'' \<mapsto> evalscript_true_color, ''ndvi'' \<mapsto> evalscript_ndvi]"

section \<open>The provider request\<close>

text \<open>
  The members of the sentinelhub enumerations the module could name (a selection of each;
  the module uses \<open>WGS84\<close>, \<open>SENTINEL2_L1C\<close> and \<open>PNG\<close>), and the arguments of
  \<^verbatim>\<open>SentinelHubRequest(...)\<close> as a record. \<open>'b\<close> is the type of the library's
  \<^verbatim>\<open>BBox\<close> objects.
\<close>

datatype CRS = WGS84 | POP_WEB

datatype DataCollection = SENTINEL2_L1C | SENTINEL2_L2A | SENTINEL1_IW | LANDSAT_OT_L1 | MODIS | DEM

datatype MimeType = PNG | JPG | TIFF | JSON

record input_data =
  data_collection :: DataCollection
  time_interval :: "string \<times> string"

record output_response =
  response_identifier :: string
  response_format :: MimeType

record 'b SentinelHubRequest =
  sh_evalscript :: string
  sh_input_data :: "input_data list"
  sh_responses :: "output_response list"
  sh_bbox :: 'b
  sh_size :: "int list"
  sh_config :: SHConfig

section \<open>The libraries\<close>

text \<open>
  What the libraries compute, as far as the module depends on it. A call that can raise
  returns a sum: \<open>Inl m\<close> is an exception whose \<^verbatim>\<open>str\<close> is \<open>m\<close>.
  \<^item> \<open>float_validate\<close>: pydantic's validation of one JSON value as a float.
  \<^item> \<open>BBox_init\<close>: the constructor \<^verbatim>\<open>BBox(bbox=..., crs=...)\<close>.
    (What is known of these two libraries is written out after the record, as
    \<open>pydantic_float\<close> and \<open>sentinelhub_BBox\<close>.)
  \<^item> \<open>get_data\<close>: constructing the \<^verbatim>\<open>SentinelHubRequest\<close> from its arguments and
    calling \<^verbatim>\<open>get_data()\<close> on it: the provider's answer to this request, a list of
    arrays \<open>'a\<close>, or the failure of the construction, the network or the provider.
  \<^item> \<open>Image_fromarray\<close>: \<^verbatim>\<open>Image.fromarray\<close>, from an array to a PIL image \<open>'i\<close>.
  \<^item> \<open>png_save\<close>: PIL's PNG writer on an image: the bytes it writes, or its failure.
    \<^verbatim>\<open>image.save('last_image.png')\<close> reads the format off the file name and
    \<^verbatim>\<open>image.save(buffer, format="PNG")\<close> names it; both run this writer, with its
    default options, on the same image.
  \<^item> \<open>file_open_wb\<close>: opening a path for writing; \<open>Some m\<close> when the system refuses.
  \<^item> \<open>aborted_save\<close>: what is at the path after PIL has opened the file and its writer
    has failed, given what was there before.
  \<^item> \<open>str_HTTPException\<close>: \<^verbatim>\<open>str(e)\<close> for an \<^verbatim>\<open>HTTPException\<close> with the
    given status code and detail.
\<close>

record ('f, 'b, 'a, 'i) libs =
  float_validate :: "'f json \<Rightarrow> 'f option"
  BBox_init :: "'f list \<Rightarrow> CRS \<Rightarrow> string + 'b"
  get_data :: "'b SentinelHubRequest \<Rightarrow> string + 'a list"
  Image_fromarray :: "'a \<Rightarrow> string + 'i"
  png_save :: "'i \<Rightarrow> string + bytes"
  file_open_wb :: "string \<Rightarrow> string option"
  aborted_save :: "'i \<Rightarrow> bytes option \<Rightarrow> bytes option"
  str_HTTPException :: "int \<Rightarrow> string \<Rightarrow> string"

definition str_exc :: "('f, 'b, 'a, 'i) libs \<Rightarrow> py_exception \<Rightarrow> string" where
  "str_exc L e = (case e of Exception m \<Rightarrow> m | HTTPException c d \<Rightarrow> str_HTTPException L c d)"

subsection \<open>The validator of floats and the BBox constructor\<close>

text \<open>
  The module has no check of the bounding box of its own: the field is declared
  \<^verbatim>\<open>List[float]\<close>, and the list goes to \<^verbatim>\<open>BBox\<close> as it is. What happens to
  a malformed box is therefore what these two libraries do.

  pydantic validates a field of type float in its lax mode: a JSON number is taken as it
  is, a boolean is converted to a float (\<open>fb\<close>), a string is taken when it parses
  as a float (\<open>fs\<close>, the library's parser), and \<^verbatim>\<open>null\<close>, an array and an
  object are refused.
\<close>

fun pydantic_float :: "(bool \<Rightarrow> 'f) \<Rightarrow> (string \<Rightarrow> 'f option) \<Rightarrow> 'f json \<Rightarrow> 'f option" where
  "pydantic_float fb fs (JNumber x) = Some x"
| "pydantic_float fb fs (JBool b) = Some (fb b)"
| "pydantic_float fb fs (JString t) = fs t"
| "pydantic_float fb fs JNull = None"
| "pydantic_float fb fs (JArray js) = None"
| "pydantic_float fb fs (JObject kvs) = None"

text \<open>
  sentinelhub's \<^verbatim>\<open>BBox\<close> takes a list of numbers only when it has four of them
  (\<open>four\<close> is the constructor on such a list); for a list of numbers of any other
  length it raises an exception, whose message is \<open>refusal\<close>.
\<close>

definition sentinelhub_BBox ::
  "('f list \<Rightarrow> CRS \<Rightarrow> string + 'b) \<Rightarrow> ('f list \<Rightarrow> string) \<Rightarrow> 'f list \<Rightarrow> CRS \<Rightarrow> string + 'b" where
  "sentinelhub_BBox four refusal xs crs =
     (if length xs = 4 then four xs crs else Inl (refusal xs))"

text \<open>
  Any libraries \<open>L\<close>, with the validator of floats and the BBox constructor being these
  two.
\<close>

definition with_pydantic_and_sentinelhub ::
  "(bool \<Rightarrow> 'f) \<Rightarrow> (string \<Rightarrow> 'f option) \<Rightarrow> ('f list \<Rightarrow> CRS \<Rightarrow> string + 'b)
     \<Rightarrow> ('f list \<Rightarrow> string) \<Rightarrow> ('f, 'b, 'a, 'i) libs \<Rightarrow> ('f, 'b, 'a, 'i) libs" where
  "with_pydantic_and_sentinelhub fb fs four refusal L =
     L\<lparr>float_validate := pydantic_float fb fs,
       BBox_init := sentinelhub_BBox four refusal\<rparr>"

section \<open>The state of the process\<close>

text \<open>
  What the handlers can change: the files of the working directory (the module names only
  \<^verbatim>\<open>last_image.png\<close>), the lines printed to standard output, and the requests made
  to the provider, in order. The credentials \<^verbatim>\<open>config\<close> and the dictionary
  \<^verbatim>\<open>EVALSCRIPTS\<close> are module globals that no handler assigns; they are arguments and
  constants of the model, not part of the state.
\<close>

record 'b world =
  files :: "string \<rightharpoonup> bytes"
  stdout :: "string list"
  provider_requests :: "'b SentinelHubRequest list"

text \<open>
  \<^verbatim>\<open>image.save(path)\<close>: PIL opens the file for writing, runs the writer, and closes
  the file.
\<close>

definition Image_save_path ::
  "('f, 'b, 'a, 'i) libs \<Rightarrow> 'i \<Rightarrow> string \<Rightarrow> 'b world \<Rightarrow> (py_exception + unit) \<times> 'b world" where
  "Image_save_path L img p s =
     (case file_open_wb L p of
        Some m \<Rightarrow> (Inl (Exception m), s)
      | None \<Rightarrow>
          (case png_save L img of
             Inl m \<Rightarrow> (Inl (Exception m), s\<lparr>files := (files s)(p := aborted_save L img (files s p))\<rparr>)
           | Inr b \<Rightarrow> (Inr (), s\<lparr>files := (files s)(p \<mapsto> b)\<rparr>)))"

section \<open>The handler of POST /get-image\<close>

text \<open>
  Starlette's \<^verbatim>\<open>StreamingResponse(content, media_type=...)\<close>; its status code is
  200 when none is given.
\<close>

record StreamingResponse =
  sr_content :: bytes
  sr_status_code :: int
  sr_media_type :: string

text \<open>
  The detail of the HTTPException with status 400 (in English: invalid layer type), the
  text printed before the message of a caught exception (in English: an error occurred,
  followed by a colon and a space), and the message of Python's IndexError for a list.
\<close>

definition detail_400 :: string where
  \<open>detail_400 =
    [CHR 0xD0, CHR 0x9D, CHR 0xD0, CHR 0xB5, CHR 0xD0, CHR 0xB2, CHR 0xD0, CHR 0xB5, CHR 0xD1,
      CHR 0x80, CHR 0xD0, CHR 0xBD, CHR 0xD1, CHR 0x8B, CHR 0xD0, CHR 0xB9] @ '' '' @ [CHR 0xD1,
      CHR 0x82, CHR 0xD0, CHR 0xB8, CHR 0xD0, CHR 0xBF] @ '' '' @ [CHR 0xD1, CHR 0x81, CHR 0xD0,
      CHR 0xBB, CHR 0xD0, CHR 0xBE, CHR 0xD1, CHR 0x8F]\<close>

definition print_prefix :: string where
  \<open>print_prefix =
    [CHR 0xD0, CHR 0x9F, CHR 0xD1, CHR 0x80, CHR 0xD0, CHR 0xBE, CHR 0xD0, CHR 0xB8, CHR 0xD0,
      CHR 0xB7, CHR 0xD0, CHR 0xBE, CHR 0xD1, CHR 0x88, CHR 0xD0, CHR 0xBB, CHR 0xD0,
      CHR 0xB0] @ '' '' @ [CHR 0xD0, CHR 0xBE, CHR 0xD1, CHR 0x88, CHR 0xD0, CHR 0xB8, CHR 0xD0,
      CHR 0xB1, CHR 0xD0, CHR 0xBA, CHR 0xD0, CHR 0xB0] @ '': ''\<close>

definition IndexError_message :: string where
  "IndexError_message = ''list index out of range''"

text \<open>
  The body of the \<^verbatim>\<open>try\<close> block:
  \<^verbatim>\<open>
  sentinel_bbox = BBox(bbox=request.bbox, crs=CRS.WGS84)

  selected_script = EVALSCRIPTS.get(request.layer_type)
  if not selected_script:
      raise HTTPException(status_code=400, detail="...")

  sentinel_request = SentinelHubRequest(
      evalscript=selected_script,
      input_data=[
          SentinelHubRequest.input_data(
              data_collection=DataCollection.SENTINEL2_L1C,
              time_interval=("2025-04-01", "2025-09-30"),
          )
      ],
      responses=[SentinelHubRequest.output_response("default", MimeType.PNG)],
      bbox=sentinel_bbox,
      size=[512, 512],
      config=config
  )

  image_data = sentinel_request.get_data()[0]
  image = Image.fromarray(image_data)
  image.save('last_image.png')

  buffer = io.BytesIO()
  image.save(buffer, format="PNG")
  buffer.seek(0)

  return StreamingResponse(buffer, media_type="image/png")
  \<close>
  The result is the response, or the exception that leaves the block, with the state at
  that moment.
\<close>

definition get_image_try ::
  "('f, 'b, 'a, 'i) libs \<Rightarrow> SHConfig \<Rightarrow> 'f BboxRequest \<Rightarrow> 'b world
     \<Rightarrow> (py_exception + StreamingResponse) \<times> 'b world" where
  "get_image_try L config request s =
     (case BBox_init L (bbox request) WGS84 of
        Inl m \<Rightarrow> (Inl (Exception m), s)
      | Inr sentinel_bbox \<Rightarrow>
          (let selected_script = EVALSCRIPTS (layer_type request) in
           if \<not> truthy selected_script
           then (Inl (HTTPException 400 detail_400), s)
           else
             (let sentinel_request =
                    \<lparr>sh_evalscript = the selected_script,
                     sh_input_data =
                       [\<lparr>data_collection = SENTINEL2_L1C,
                         time_interval = (''2025-04-01'', ''2025-09-30'')\<rparr>],
                     sh_responses = [\<lparr>response_identifier = ''default'', response_format = PNG\<rparr>],
                     sh_bbox = sentinel_bbox,
                     sh_size = [512, 512],
                     sh_config = config\<rparr>;
                  s1 = s\<lparr>provider_requests := provider_requests s @ [sentinel_request]\<rparr>
              in case get_data L sentinel_request of
                   Inl m \<Rightarrow> (Inl (Exception m), s1)
                 | Inr [] \<Rightarrow> (Inl (Exception IndexError_message), s1)
                 | Inr (image_data # _) \<Rightarrow>
                     (case Image_fromarray L image_data of
                        Inl m \<Rightarrow> (Inl (Exception m), s1)
                      | Inr img \<Rightarrow>
                          (case Image_save_path L img ''last_image.png'' s1 of
                             (Inl e, s2) \<Rightarrow> (Inl e, s2)
                           | (Inr _, s2) \<Rightarrow>
                               (case png_save L img of
                                  Inl m \<Rightarrow> (Inl (Exception m), s2)
                                | Inr buffer \<Rightarrow>
                                    (Inr \<lparr>sr_content = buffer, sr_status_code = 200,
                                          sr_media_type = ''image/png''\<rparr>, s2)))))))"

text \<open>
  The handler: the block above under
  \<^verbatim>\<open>
  except Exception as e:
      print(f"...: {e}")
      raise HTTPException(status_code=500, detail=str(e))
  \<close>
  Every exception of the block is caught, the HTTPException with status 400 too.
\<close>

definition get_image ::
  "('f, 'b, 'a, 'i) libs \<Rightarrow> SHConfig \<Rightarrow> 'f BboxRequest \<Rightarrow> 'b world
     \<Rightarrow> (py_exception + StreamingResponse) \<times> 'b world" where
  "get_image L config request s =
     (case get_image_try L config request s of
        (Inr response, s') \<Rightarrow> (Inr response, s')
      | (Inl e, s') \<Rightarrow>
          (Inl (HTTPException 500 (str_exc L e)),
           s'\<lparr>stdout := stdout s' @ [print_prefix @ str_exc L e]\<rparr>))"

section \<open>The handler of GET /download-image\<close>

text \<open>
  \<^verbatim>\<open>
  file_path = "last_image.png"
  return FileResponse(path=file_path,filename="sentinel_snapshot.png",media_type='image/png')
  \<close>
  The handler reads nothing and checks nothing: it returns the response object.
\<close>

record FileResponse =
  fr_path :: string
  fr_filename :: string
  fr_media_type :: string

definition download_image :: "'b world \<Rightarrow> (py_exception + FileResponse) \<times> 'b world" where
  "download_image s =
     (let file_path = ''last_image.png''
      in (Inr \<lparr>fr_path = file_path, fr_filename = ''sentinel_snapshot.png'',
               fr_media_type = ''image/png''\<rparr>, s))"

section \<open>The routes, as the framework serves them\<close>

text \<open>
  What a client gets. The module installs no exception handler and no custom response, so
  this is FastAPI's and Starlette's own behaviour:
  \<^item> a body that fails the validation of the request model is answered with status 422,
    and the handler is not called;
  \<^item> an HTTPException raised by a handler is answered with its status code and its detail;
    any other exception with status 500;
  \<^item> a StreamingResponse is sent with its status code and its content;
  \<^item> a FileResponse is sent with status 200 and the content of the file at its path; when
    there is no file at the path, sending it raises a RuntimeError, which is answered with
    status 500.
\<close>

datatype answer =
    ValidationError
  | Raised py_exception
  | Streamed StreamingResponse
  | FileSent FileResponse bytes
  | FileMissing FileResponse

fun http_status :: "answer \<Rightarrow> int" where
  "http_status ValidationError = 422"
| "http_status (Raised (HTTPException status_code detail)) = status_code"
| "http_status (Raised (Exception m)) = 500"
| "http_status (Streamed r) = sr_status_code r"
| "http_status (FileSent r b) = 200"
| "http_status (FileMissing r) = 500"

fun http_body :: "answer \<Rightarrow> bytes option" where
  "http_body (Streamed r) = Some (sr_content r)"
| "http_body (FileSent r b) = Some b"
| "http_body _ = None"

definition post_get_image ::
  "('f, 'b, 'a, 'i) libs \<Rightarrow> SHConfig \<Rightarrow> 'f json \<Rightarrow> 'b world \<Rightarrow> answer \<times> 'b world" where
  "post_get_image L config body s =
     (case validate_BboxRequest (float_validate L) body of
        None \<Rightarrow> (ValidationError, s)
      | Some request \<Rightarrow>
          (case get_image L config request s of
             (Inl e, s') \<Rightarrow> (Raised e, s')
           | (Inr response, s') \<Rightarrow> (Streamed response, s')))"

definition send_FileResponse :: "'b world \<Rightarrow> FileResponse \<Rightarrow> answer" where
  "send_FileResponse s r =
     (case files s (fr_path r) of None \<Rightarrow> FileMissing r | Some b \<Rightarrow> FileSent r b)"

definition get_download_image :: "'b world \<Rightarrow> answer \<times> 'b world" where
  "get_download_image s =
     (case download_image s of
        (Inl e, s') \<Rightarrow> (Raised e, s')
      | (Inr response, s') \<Rightarrow> (send_FileResponse s' response, s'))"

section \<open>Concrete environments\<close>

text \<open>
  Small instances of the parameters, on which the model can be run. In \<open>sample_libs\<close>
  floats are reals; the validator of floats is \<open>pydantic_float\<close>, with \<^verbatim>\<open>true\<close>
  and \<^verbatim>\<open>false\<close> converted to 1 and 0 and strings parsed as decimal numerals
  (\<open>str_to_real\<close>); the BBox constructor is \<open>sentinelhub_BBox\<close>, which keeps four
  numbers as they are; the provider returns one array, every other call succeeds, and
  \<^verbatim>\<open>str\<close> of an HTTPException is its status code, a colon and its detail (as
  Starlette prints it). \<open>offline_libs\<close> is the same with a provider that cannot be
  reached. The messages of the library exceptions in the samples
  (\<open>BBox_refusal_sample\<close>, the provider's) are stand-ins: the source does not
  determine them.
\<close>

text \<open>
  Decimal numerals as reals: an optional sign, digits with an optional fraction (at least
  one digit in all), and an optional exponent. (The parsers of Python and pydantic also
  take the names of the infinities and of NaN, which are not reals.)
\<close>

definition is_digit :: "char \<Rightarrow> bool" where
  "is_digit c = (c \<in> set ''0123456789'')"

definition digit_value :: "char \<Rightarrow> nat" where
  "digit_value c = length (takeWhile (\<lambda>d. d \<noteq> c) ''0123456789'')"

definition nat_of_digits :: "string \<Rightarrow> nat" where
  "nat_of_digits ds = foldl (\<lambda>n c. 10 * n + digit_value c) 0 ds"

definition split_sign :: "string \<Rightarrow> bool \<times> string" where
  "split_sign t =
     (case t of
        [] \<Rightarrow> (False, [])
      | c # r \<Rightarrow> if c = CHR ''-'' then (True, r) else if c = CHR ''+'' then (False, r)
                 else (False, t))"

definition exponent_of :: "string \<Rightarrow> int option" where
  "exponent_of r =
     (case r of
        [] \<Rightarrow> Some 0
      | c # u \<Rightarrow>
          if c = CHR ''e'' \<or> c = CHR ''E''
          then (case split_sign u of
                  (neg, ds) \<Rightarrow>
                    if ds \<noteq> [] \<and> list_all is_digit ds
                    then Some (if neg then - int (nat_of_digits ds) else int (nat_of_digits ds))
                    else None)
          else None)"

definition str_to_real :: "string \<Rightarrow> real option" where
  "str_to_real t =
     (case split_sign t of
        (neg, u) \<Rightarrow>
          (let ip = takeWhile is_digit u;
               r1 = dropWhile is_digit u;
               fp = (case r1 of [] \<Rightarrow> []
                     | c # r \<Rightarrow> if c = CHR ''.'' then takeWhile is_digit r else []);
               r2 = (case r1 of [] \<Rightarrow> []
                     | c # r \<Rightarrow> if c = CHR ''.'' then dropWhile is_digit r else r1)
           in if ip @ fp = [] then None
              else (case exponent_of r2 of
                      None \<Rightarrow> None
                    | Some e \<Rightarrow>
                        (let m = real (nat_of_digits (ip @ fp));
                             k = e - int (length fp);
                             v = (if 0 \<le> k then m * 10 ^ nat k else m / 10 ^ nat (- k))
                         in Some (if neg then - v else v)))))"

definition BBox_refusal_sample :: "real list \<Rightarrow> string" where
  "BBox_refusal_sample xs = ''BBox refuses a list that does not have four numbers''"

fun str_nat :: "nat \<Rightarrow> string" where
  "str_nat n =
     (if n < 10 then [''0123456789'' ! n]
      else str_nat (n div 10) @ [''0123456789'' ! (n mod 10)])"

declare str_nat.simps [simp del]

definition str_int :: "int \<Rightarrow> string" where
  "str_int i = (if i < 0 then CHR ''-'' # str_nat (nat (- i)) else str_nat (nat i))"

definition sample_libs :: "(real, real list, nat, nat) libs" where
  "sample_libs =
     \<lparr>float_validate = pydantic_float of_bool str_to_real,
      BBox_init = sentinelhub_BBox (\<lambda>xs crs. Inr xs) BBox_refusal_sample,
      get_data = (\<lambda>r. Inr [7]),
      Image_fromarray = (\<lambda>a. Inr a),
      png_save = (\<lambda>i. Inr [137, 80, 78, 71, 13, 10, 26, 10]),
      file_open_wb = (\<lambda>p. None),
      aborted_save = (\<lambda>i old. old),
      str_HTTPException = (\<lambda>c d. str_int c @ '': '' @ d)\<rparr>"


definition sample_config :: SHConfig where
  "sample_config = \<lparr>sh_client_id = ''id'', sh_client_secret = ''secret''\<rparr>"

definition empty_world :: "real list world" where
  "empty_world = \<lparr>files = Map.empty, stdout = [], provider_requests = []\<rparr>"

definition sample_request :: "real BboxRequest" where
  "sample_request = \<lparr>bbox = [37.5, 55.5, 37.75, 55.75], layer_type = ''ndvi''\<rparr>"

definition sample_body :: "real json" where
  "sample_body =
     JObject [(''bbox'', JArray [JNumber 37.5, JNumber 55.5, JNumber 37.75, JNumber 55.75]),
              (''layer_type'', JString ''ndvi'')]"

section \<open>Facts about the model\<close>

subsection \<open>Scripts and validation\<close>

lemma truthy_simps: "truthy None = False" "truthy (Some t) = (t \<noteq> [])"
  by (simp_all add: truthy_def)

lemma evalscript_true_color_nonempty: "evalscript_true_color \<noteq> []"
  by (simp add: evalscript_true_color_def)

lemma evalscript_ndvi_nonempty: "evalscript_ndvi \<noteq> []"
  by (simp add: evalscript_ndvi_def)

lemma EVALSCRIPTS_layer_types:
  assumes "t \<in> set layer_types"
  shows "EVALSCRIPTS t = Some (if t = ''true_color'' then evalscript_true_color else evalscript_ndvi)"
    and "truthy (EVALSCRIPTS t)"
  using assms
  by (auto simp: layer_types_def EVALSCRIPTS_def truthy_simps
      evalscript_true_color_nonempty evalscript_ndvi_nonempty)

lemma validate_layer_type_Some:
  "validate_layer_type l = Some t \<longleftrightarrow> l = JString t \<and> t \<in> set layer_types"
  by (cases l) auto

lemma validate_BboxRequest_Some:
  assumes "validate_BboxRequest vf body = Some request"
  shows "layer_type request \<in> set layer_types"
    and "json_field body ''layer_type'' = Some (JString (layer_type request))"
    and "\<exists>b. json_field body ''bbox'' = Some b \<and> validate_bbox vf b = Some (bbox request)"
  using assms
  by (auto simp: validate_BboxRequest_def validate_layer_type_Some split: option.splits)

lemma those_None: "None \<in> set ys \<Longrightarrow> those ys = None"
  by (induction ys) (auto split: option.splits)

lemma those_length: "those ys = Some xs \<Longrightarrow> length xs = length ys"
  by (induction ys arbitrary: xs) (auto split: option.splits)

text \<open>
  The sample libraries have pydantic's validator and sentinelhub's constructor.
\<close>

lemma str_to_real_sample: "str_to_real ''37.5'' = Some 37.5"
  by (simp add: str_to_real_def split_sign_def is_digit_def exponent_of_def nat_of_digits_def
      digit_value_def)

lemma sample_libs_shape:
  "with_pydantic_and_sentinelhub of_bool str_to_real (\<lambda>xs crs. Inr xs) BBox_refusal_sample
     sample_libs = sample_libs"
  by (simp add: with_pydantic_and_sentinelhub_def sample_libs_def)

subsection \<open>The try block and the handler\<close>

text \<open>
  The block returns a response only when every step has succeeded; the response and the
  state are then determined by the steps.
\<close>

lemma get_image_try_Inr:
  assumes "get_image_try L config request s = (Inr response, s')"
  shows "\<exists>b script data rest img r.
           BBox_init L (bbox request) WGS84 = Inr b
         \<and> EVALSCRIPTS (layer_type request) = Some script
         \<and> r = \<lparr>sh_evalscript = script,
                  sh_input_data = [\<lparr>data_collection = SENTINEL2_L1C,
                                     time_interval = (''2025-04-01'', ''2025-09-30'')\<rparr>],
                  sh_responses = [\<lparr>response_identifier = ''default'', response_format = PNG\<rparr>],
                  sh_bbox = b, sh_size = [512, 512], sh_config = config\<rparr>
         \<and> get_data L r = Inr (data # rest)
         \<and> Image_fromarray L data = Inr img
         \<and> file_open_wb L ''last_image.png'' = None
         \<and> png_save L img = Inr (sr_content response)
         \<and> response = \<lparr>sr_content = sr_content response, sr_status_code = 200,
                         sr_media_type = ''image/png''\<rparr>
         \<and> s' = s\<lparr>provider_requests := provider_requests s @ [r],
                    files := (files s)(''last_image.png'' \<mapsto> sr_content response)\<rparr>"
  using assms
  by (auto simp: get_image_try_def Image_save_path_def Let_def truthy_def
      split: sum.splits list.splits option.splits if_splits prod.splits)

text \<open>
  Where the block raises: each library step that fails ends the block with its exception,
  in the state reached so far.
\<close>

lemma get_image_try_BBox_raises:
  assumes "BBox_init L (bbox request) WGS84 = Inl m"
  shows "get_image_try L config request s = (Inl (Exception m), s)"
  using assms by (simp add: get_image_try_def)

lemma get_image_try_raises:
  assumes "BBox_init L (bbox request) WGS84 = Inr b"
    and "EVALSCRIPTS (layer_type request) = Some script" and "script \<noteq> []"
    and "r = \<lparr>sh_evalscript = script,
               sh_input_data = [\<lparr>data_collection = SENTINEL2_L1C,
                                  time_interval = (''2025-04-01'', ''2025-09-30'')\<rparr>],
               sh_responses = [\<lparr>response_identifier = ''default'', response_format = PNG\<rparr>],
               sh_bbox = b, sh_size = [512, 512], sh_config = config\<rparr>"
    and "s1 = s\<lparr>provider_requests := provider_requests s @ [r]\<rparr>"
  shows "get_data L r = Inl m \<Longrightarrow>
           get_image_try L config request s = (Inl (Exception m), s1)"
    and "get_data L r = Inr [] \<Longrightarrow>
           get_image_try L config request s = (Inl (Exception IndexError_message), s1)"
    and "get_data L r = Inr (data # rest) \<Longrightarrow> Image_fromarray L data = Inl m \<Longrightarrow>
           get_image_try L config request s = (Inl (Exception m), s1)"
    and "get_data L r = Inr (data # rest) \<Longrightarrow> Image_fromarray L data = Inr img \<Longrightarrow>
         file_open_wb L ''last_image.png'' = Some m \<Longrightarrow>
           get_image_try L config request s = (Inl (Exception m), s1)"
    and "get_data L r = Inr (data # rest) \<Longrightarrow> Image_fromarray L data = Inr img \<Longrightarrow>
         file_open_wb L ''last_image.png'' = None \<Longrightarrow> png_save L img = Inl m \<Longrightarrow>
           get_image_try L config request s =
             (Inl (Exception m),
              s1\<lparr>files := (files s1)(''last_image.png'' :=
                                        aborted_save L img (files s1 ''last_image.png''))\<rparr>)"
  using assms
  by (simp_all add: get_image_try_def Image_save_path_def truthy_def)

lemma get_image_Inr:
  "get_image L config request s = (Inr response, s') \<longleftrightarrow>
   get_image_try L config request s = (Inr response, s')"
  by (auto simp: get_image_def split: prod.splits sum.splits)

lemma get_image_Inl:
  assumes "get_image_try L config request s = (Inl e, s1)"
  shows "get_image L config request s =
           (Inl (HTTPException 500 (str_exc L e)),
            s1\<lparr>stdout := stdout s1 @ [print_prefix @ str_exc L e]\<rparr>)"
  using assms by (simp add: get_image_def)

lemma get_image_status:
  "(\<exists>response. fst (get_image L config request s) = Inr response \<and> sr_status_code response = 200)
   \<or> (\<exists>detail. fst (get_image L config request s) = Inl (HTTPException 500 detail))"
proof (cases "get_image_try L config request s")
  case (Pair r s1)
  show ?thesis
  proof (cases r)
    case (Inl e)
    with Pair show ?thesis by (simp add: get_image_Inl)
  next
    case (Inr response)
    with Pair have "get_image L config request s = (Inr response, s1)"
      by (simp add: get_image_Inr)
    moreover from Pair Inr have "sr_status_code response = 200"
      by (auto dest!: get_image_try_Inr) (metis StreamingResponse.select_convs(2))
    ultimately show ?thesis by simp
  qed
qed

text \<open>
  The requests made to the provider: at most one is added, and only after the BBox has been
  constructed and a script selected.
\<close>

lemma get_image_try_provider_requests:
  "provider_requests (snd (get_image_try L config request s)) =
     (case BBox_init L (bbox request) WGS84 of
        Inl m \<Rightarrow> provider_requests s
      | Inr b \<Rightarrow>
          (if truthy (EVALSCRIPTS (layer_type request))
           then provider_requests s @
                  [\<lparr>sh_evalscript = the (EVALSCRIPTS (layer_type request)),
                    sh_input_data = [\<lparr>data_collection = SENTINEL2_L1C,
                                       time_interval = (''2025-04-01'', ''2025-09-30'')\<rparr>],
                    sh_responses = [\<lparr>response_identifier = ''default'', response_format = PNG\<rparr>],
                    sh_bbox = b, sh_size = [512, 512], sh_config = config\<rparr>]
           else provider_requests s))"
  by (auto simp: get_image_try_def Image_save_path_def Let_def
      split: sum.splits list.splits option.splits prod.splits)

lemma get_image_provider_requests:
  "provider_requests (snd (get_image L config request s)) =
   provider_requests (snd (get_image_try L config request s))"
  by (auto simp: get_image_def split: prod.splits sum.splits)

lemma post_get_image_200:
  assumes "post_get_image L config body s = (a, s')" and "http_status a = 200"
  shows "\<exists>request response. validate_BboxRequest (float_validate L) body = Some request
           \<and> get_image_try L config request s = (Inr response, s') \<and> a = Streamed response"
  using assms
  by (auto simp: post_get_image_def get_image_def split: option.splits prod.splits sum.splits)

subsection \<open>The model on the concrete environments\<close>

lemma sample_validate:
  "validate_BboxRequest (float_validate sample_libs) sample_body = Some sample_request"
  by (simp add: validate_BboxRequest_def sample_body_def sample_libs_def sentinelhub_BBox_def sample_request_def
      layer_types_def)

lemma sample_BBox:
  "BBox_init sample_libs (bbox sample_request) WGS84 = Inr [37.5, 55.5, 37.75, 55.75]"
  by (simp add: sample_libs_def sentinelhub_BBox_def sample_request_def)

lemma sample_get_image:
  "get_image sample_libs sample_config sample_request empty_world =
     (Inr \<lparr>sr_content = [137, 80, 78, 71, 13, 10, 26, 10], sr_status_code = 200,
            sr_media_type = ''image/png''\<rparr>,
      \<lparr>files = [''last_image.png'' \<mapsto> [137, 80, 78, 71, 13, 10, 26, 10]], stdout = [],
       provider_requests =
         [\<lparr>sh_evalscript = evalscript_ndvi,
           sh_input_data = [\<lparr>data_collection = SENTINEL2_L1C,
                              time_interval = (''2025-04-01'', ''2025-09-30'')\<rparr>],
           sh_responses = [\<lparr>response_identifier = ''default'', response_format = PNG\<rparr>],
           sh_bbox = [37.5, 55.5, 37.75, 55.75], sh_size = [512, 512],
           sh_config = sample_config\<rparr>]\<rparr>)"
  by (simp add: sample_request_def sample_libs_def sentinelhub_BBox_def get_image_def get_image_try_def
      EVALSCRIPTS_def truthy_def evalscript_ndvi_nonempty Image_save_path_def empty_world_def)

lemma sample_post:
  "post_get_image sample_libs sample_config sample_body empty_world =
     (Streamed \<lparr>sr_content = [137, 80, 78, 71, 13, 10, 26, 10], sr_status_code = 200,
                sr_media_type = ''image/png''\<rparr>,
      \<lparr>files = [''last_image.png'' \<mapsto> [137, 80, 78, 71, 13, 10, 26, 10]], stdout = [],
       provider_requests =
         [\<lparr>sh_evalscript = evalscript_ndvi,
           sh_input_data = [\<lparr>data_collection = SENTINEL2_L1C,
                              time_interval = (''2025-04-01'', ''2025-09-30'')\<rparr>],
           sh_responses = [\<lparr>response_identifier = ''default'', response_format = PNG\<rparr>],
           sh_bbox = [37.5, 55.5, 37.75, 55.75], sh_size = [512, 512],
           sh_config = sample_config\<rparr>]\<rparr>)"
  by (simp add: post_get_image_def sample_validate sample_get_image)


section \<open>The claims of the specification\<close>

subsection \<open>C1: an unknown layer type\<close>

text \<open>
  C1 as stated: every POST /get-image request whose \<open>layer_type\<close> is neither
  \<open>true_color\<close> nor \<open>ndvi\<close> is answered with status 400. It fails at the body
  \<^verbatim>\<open>{"bbox": [37.5, 55.5, 37.75, 55.75], "layer_type": "foo"}\<close>: the request model
  declares \<open>layer_type\<close> as a \<^verbatim>\<open>Literal\<close> of the two names, so the body fails
  validation and the answer is the framework's 422.
\<close>

theorem unknown_layer_type_counterexample:
  "http_status (fst (post_get_image sample_libs sample_config
      (JObject [(''bbox'', JArray [JNumber 37.5, JNumber 55.5, JNumber 37.75, JNumber 55.75]),
                (''layer_type'', JString ''foo'')])
      empty_world)) \<noteq> 400"
  by (simp add: post_get_image_def validate_BboxRequest_def layer_types_def sample_libs_def sentinelhub_BBox_def)

text \<open>
  C1, amended: every POST /get-image request whose \<open>layer_type\<close> is a string other than
  \<open>true_color\<close> and \<open>ndvi\<close> is rejected by the validation of the request model: the
  handler does not run, the state is unchanged, and the answer has status 422.
\<close>

theorem unknown_layer_type_rejected:
  assumes "json_field body ''layer_type'' = Some (JString t)"
    and "t \<noteq> ''true_color''" and "t \<noteq> ''ndvi''"
  shows "post_get_image L config body s = (ValidationError, s)
       \<and> http_status (fst (post_get_image L config body s)) = 422"
  using assms
  by (auto simp: post_get_image_def validate_BboxRequest_def layer_types_def
      split: option.splits)

theorem unknown_layer_type_rejected_witness:
  "post_get_image sample_libs sample_config
      (JObject [(''bbox'', JArray [JNumber 37.5, JNumber 55.5, JNumber 37.75, JNumber 55.75]),
                (''layer_type'', JString ''foo'')])
      empty_world = (ValidationError, empty_world)
   \<and> http_status (fst (post_get_image sample_libs sample_config
      (JObject [(''bbox'', JArray [JNumber 37.5, JNumber 55.5, JNumber 37.75, JNumber 55.75]),
                (''layer_type'', JString ''foo'')])
      empty_world)) = 422"
  by (rule unknown_layer_type_rejected [where t = "''foo''"]) simp_all

subsection \<open>C2: download before any render\<close>

text \<open>
  C2 as stated: when the last-image file is absent, GET /download-image fails with a
  not-found error. It fails in the state with no files: the handler checks nothing and
  returns its FileResponse, it raises no error, and the answer the client gets is not a
  404.
\<close>

theorem download_missing_file_counterexample:
  "files empty_world ''last_image.png'' = None
   \<and> \<not> isl (fst (download_image empty_world))
   \<and> http_status (fst (get_download_image empty_world)) \<noteq> 404"
  by (simp add: empty_world_def download_image_def get_download_image_def send_FileResponse_def)

text \<open>
  C2, amended: when the last-image file is absent, the handler of GET /download-image
  still returns the file response for \<open>last_image.png\<close>, as it does when the file
  exists, and leaves the state unchanged; the service has no not-found answer of its own.
  Sending that response fails in the framework, and the client gets status 500.
\<close>

theorem download_missing_file:
  assumes "files s ''last_image.png'' = None"
  shows "download_image s =
           (Inr \<lparr>fr_path = ''last_image.png'', fr_filename = ''sentinel_snapshot.png'',
                 fr_media_type = ''image/png''\<rparr>, s)
       \<and> get_download_image s =
           (FileMissing \<lparr>fr_path = ''last_image.png'', fr_filename = ''sentinel_snapshot.png'',
                         fr_media_type = ''image/png''\<rparr>, s)
       \<and> http_status (fst (get_download_image s)) = 500"
  using assms
  by (simp add: download_image_def get_download_image_def send_FileResponse_def)

theorem download_missing_file_witness:
  "files empty_world ''last_image.png'' = None
   \<and> get_download_image empty_world =
           (FileMissing \<lparr>fr_path = ''last_image.png'', fr_filename = ''sentinel_snapshot.png'',
                         fr_media_type = ''image/png''\<rparr>, empty_world)
   \<and> http_status (fst (get_download_image empty_world)) = 500"
proof -
  have h: "files empty_world ''last_image.png'' = None"
    by (simp add: empty_world_def)
  from download_missing_file [OF h] h show ?thesis by simp
qed

subsection \<open>C3: download after a render\<close>

text \<open>
  C3: after a POST /get-image that is answered with status 200, a GET /download-image in
  the state that request left (no render in between) is answered with status 200 and
  the same bytes as the body of the first answer.
\<close>

theorem download_after_get_image:
  assumes "post_get_image L config body s = (a, s')" and "http_status a = 200"
  shows "http_status (fst (get_download_image s')) = 200
       \<and> http_body (fst (get_download_image s')) = http_body a"
proof -
  from post_get_image_200 [OF assms] obtain request response
    where t: "get_image_try L config request s = (Inr response, s')" and a: "a = Streamed response"
    by blast
  from get_image_try_Inr [OF t]
  have "files s' ''last_image.png'' = Some (sr_content response)"
    by auto
  with a show ?thesis
    by (simp add: get_download_image_def download_image_def send_FileResponse_def)
qed

theorem download_after_get_image_witness:
  "http_status (fst (get_download_image
      (snd (post_get_image sample_libs sample_config sample_body empty_world)))) = 200
 \<and> http_body (fst (get_download_image
      (snd (post_get_image sample_libs sample_config sample_body empty_world)))) =
     Some [137, 80, 78, 71, 13, 10, 26, 10]"
  using download_after_get_image [OF sample_post]
  by (simp add: sample_post)

subsection \<open>C4: the last-image file\<close>

text \<open>
  C4: when \<open>get_image\<close> returns a response, the state it returns with the response has
  \<open>last_image.png\<close> overwritten with the bytes of the response and no other file
  changed; these bytes are the PNG of the image made from the first array the provider
  returned for the one request of this call.
\<close>

theorem get_image_overwrites_last_image:
  assumes "get_image L config request s = (Inr response, s')"
  shows "files s' = (files s)(''last_image.png'' \<mapsto> sr_content response)
       \<and> (\<exists>r data rest img.
             provider_requests s' = provider_requests s @ [r]
           \<and> get_data L r = Inr (data # rest)
           \<and> Image_fromarray L data = Inr img
           \<and> png_save L img = Inr (sr_content response))"
proof -
  from assms have "get_image_try L config request s = (Inr response, s')"
    by (simp add: get_image_Inr)
  from get_image_try_Inr [OF this] show ?thesis
    by auto
qed

theorem get_image_overwrites_last_image_witness:
  "files (snd (get_image sample_libs sample_config sample_request empty_world)) =
     (files empty_world)(''last_image.png'' \<mapsto> [137, 80, 78, 71, 13, 10, 26, 10])"
  using get_image_overwrites_last_image [OF sample_get_image]
  by (simp add: sample_get_image)

subsection \<open>C5: failures of the render\<close>



subsection \<open>C6: the provider request\<close>

text \<open>
  C6: for a body that passes validation and whose bounding box the BBox constructor
  accepts, POST /get-image makes exactly one request to the provider: its evalscript is the
  one \<^verbatim>\<open>EVALSCRIPTS\<close> maps the layer type to, its one input is the collection
  Sentinel-2 L1C over 2025-04-01 to 2025-09-30, its one response is a PNG, its size is
  512 by 512, and it carries the BBox and the credentials.
\<close>

theorem provider_request_is_fixed:
  assumes "validate_BboxRequest (float_validate L) body = Some request"
    and "BBox_init L (bbox request) WGS84 = Inr b"
  shows "\<exists>script. EVALSCRIPTS (layer_type request) = Some script
       \<and> provider_requests (snd (post_get_image L config body s)) =
           provider_requests s @
             [\<lparr>sh_evalscript = script,
               sh_input_data = [\<lparr>data_collection = SENTINEL2_L1C,
                                  time_interval = (''2025-04-01'', ''2025-09-30'')\<rparr>],
               sh_responses = [\<lparr>response_identifier = ''default'', response_format = PNG\<rparr>],
               sh_bbox = b, sh_size = [512, 512], sh_config = config\<rparr>]"
proof -
  have t: "layer_type request \<in> set layer_types"
    using assms(1) by (rule validate_BboxRequest_Some)
  have "provider_requests (snd (post_get_image L config body s)) =
        provider_requests (snd (get_image L config request s))"
    using assms(1) by (simp add: post_get_image_def split: prod.splits sum.splits)
  with assms(2) EVALSCRIPTS_layer_types [OF t] show ?thesis
    by (simp add: get_image_provider_requests get_image_try_provider_requests)
qed

theorem provider_request_is_fixed_witness:
  "provider_requests (snd (post_get_image sample_libs sample_config sample_body empty_world)) =
     [\<lparr>sh_evalscript = evalscript_ndvi,
       sh_input_data = [\<lparr>data_collection = SENTINEL2_L1C,
                          time_interval = (''2025-04-01'', ''2025-09-30'')\<rparr>],
       sh_responses = [\<lparr>response_identifier = ''default'', response_format = PNG\<rparr>],
       sh_bbox = [37.5, 55.5, 37.75, 55.75], sh_size = [512, 512],
       sh_config = sample_config\<rparr>]"
  using provider_request_is_fixed [OF sample_validate sample_BBox, of sample_config empty_world]
  by (simp add: sample_request_def EVALSCRIPTS_def empty_world_def)

subsection \<open>C7: the credentials\<close>

text \<open>
  C7: with the environment as \<^verbatim>\<open>os.getenv\<close> reads it (after \<^verbatim>\<open>load_dotenv()\<close>),
  if \<open>ClientID\<close> or \<open>ClientSecret\<close> is missing or empty, start-up raises the ValueError
  and no configuration exists; otherwise start-up yields the configuration holding the two
  values, and every request a later \<open>get_image\<close> adds to those made to the provider
  carries exactly this configuration.
\<close>

theorem startup_credentials:
  "(load_dotenv dotenv environ ''ClientID'' \<in> {None, Some ''''}
      \<or> load_dotenv dotenv environ ''ClientSecret'' \<in> {None, Some ''''}
    \<longrightarrow> startup dotenv environ = Inl (Exception ValueError_message))
 \<and> (load_dotenv dotenv environ ''ClientID'' = Some i \<and> i \<noteq> ''''
      \<and> load_dotenv dotenv environ ''ClientSecret'' = Some k \<and> k \<noteq> ''''
    \<longrightarrow> startup dotenv environ = Inr \<lparr>sh_client_id = i, sh_client_secret = k\<rparr>
      \<and> (\<forall>L request s r.
            r \<in> set (provider_requests
                       (snd (get_image L \<lparr>sh_client_id = i, sh_client_secret = k\<rparr> request s)))
            \<longrightarrow> r \<in> set (provider_requests s)
                \<or> sh_config r = \<lparr>sh_client_id = i, sh_client_secret = k\<rparr>))"
  by (auto simp: startup_def Let_def truthy_def get_image_provider_requests
      get_image_try_provider_requests split: option.splits sum.splits if_splits)

theorem startup_credentials_witness:
  "startup Map.empty [''ClientID'' \<mapsto> ''my-id''] = Inl (Exception ValueError_message)
 \<and> startup [''ClientSecret'' \<mapsto> ''from-dotenv'']
       [''ClientID'' \<mapsto> ''my-id'', ''ClientSecret'' \<mapsto> '''']
     = Inl (Exception ValueError_message)
 \<and> startup Map.empty [''ClientID'' \<mapsto> ''my-id'', ''ClientSecret'' \<mapsto> ''my-secret'']
     = Inr \<lparr>sh_client_id = ''my-id'', sh_client_secret = ''my-secret''\<rparr>
 \<and> sh_config (last (provider_requests (snd (get_image sample_libs
       \<lparr>sh_client_id = ''my-id'', sh_client_secret = ''my-secret''\<rparr> sample_request empty_world))))
     = \<lparr>sh_client_id = ''my-id'', sh_client_secret = ''my-secret''\<rparr>"
proof -
  have a: "startup Map.empty [''ClientID'' \<mapsto> ''my-id''] = Inl (Exception ValueError_message)"
    using startup_credentials [of Map.empty "[''ClientID'' \<mapsto> ''my-id'']" "''my-id''" "''''"]
    by (simp add: load_dotenv_def)
  have b: "startup [''ClientSecret'' \<mapsto> ''from-dotenv'']
             [''ClientID'' \<mapsto> ''my-id'', ''ClientSecret'' \<mapsto> '''']
           = Inl (Exception ValueError_message)"
    using startup_credentials [of "[''ClientSecret'' \<mapsto> ''from-dotenv'']"
        "[''ClientID'' \<mapsto> ''my-id'', ''ClientSecret'' \<mapsto> '''']" "''my-id''" "''''"]
    by (simp add: load_dotenv_def)
  have c: "startup Map.empty [''ClientID'' \<mapsto> ''my-id'', ''ClientSecret'' \<mapsto> ''my-secret'']
             = Inr \<lparr>sh_client_id = ''my-id'', sh_client_secret = ''my-secret''\<rparr>
         \<and> (\<forall>L request s r.
              r \<in> set (provider_requests
                         (snd (get_image (L :: (real, real list, nat, nat) libs)
                                 \<lparr>sh_client_id = ''my-id'', sh_client_secret = ''my-secret''\<rparr>
                                 request s)))
              \<longrightarrow> r \<in> set (provider_requests s)
                  \<or> sh_config r = \<lparr>sh_client_id = ''my-id'', sh_client_secret = ''my-secret''\<rparr>)"
    using startup_credentials [of Map.empty
        "[''ClientID'' \<mapsto> ''my-id'', ''ClientSecret'' \<mapsto> ''my-secret'']"
        "''my-id''" "''my-secret''"]
    by (simp add: load_dotenv_def)
  have d: "provider_requests (snd (get_image sample_libs
             \<lparr>sh_client_id = ''my-id'', sh_client_secret = ''my-secret''\<rparr>
             sample_request empty_world)) \<noteq> []"
    by (simp add: get_image_provider_requests get_image_try_provider_requests sample_libs_def sentinelhub_BBox_def
        sample_request_def EVALSCRIPTS_def truthy_def evalscript_ndvi_nonempty)
  from c d have "sh_config (last (provider_requests (snd (get_image sample_libs
       \<lparr>sh_client_id = ''my-id'', sh_client_secret = ''my-secret''\<rparr> sample_request empty_world))))
     = \<lparr>sh_client_id = ''my-id'', sh_client_secret = ''my-secret''\<rparr>"
    by (metis last_in_set empty_iff empty_set empty_world_def world.select_convs(3))
  with a b c show ?thesis by simp
qed

subsection \<open>C8: a malformed bounding box\<close>

text \<open>
  C8 as stated: every POST /get-image request whose \<open>bbox\<close> is malformed (wrong arity or
  entries that are not numbers) is answered with status 500 or 400, never with 200. It
  fails in both parts. At the body
  \<^verbatim>\<open>{"bbox": [null, 55.5, 37.75, 55.75], "layer_type": "ndvi"}\<close> the request model,
  which declares \<open>bbox\<close> as a list of floats, fails validation and the answer is the
  framework's 422, neither 500 nor 400. At the body
  \<^verbatim>\<open>{"bbox": [true, 55.5, 37.75, 55.75], "layer_type": "ndvi"}\<close>, and at the same
  body with \<^verbatim>\<open>"37.5"\<close> for \<^verbatim>\<open>true\<close>, the entry that is not a number is
  converted to a float by the validation, the handler runs on four floats, and when the
  provider answers the response is a 200.
\<close>

theorem malformed_bbox_counterexample:
  "http_status (fst (post_get_image sample_libs sample_config
      (JObject [(''bbox'', JArray [JNull, JNumber 55.5, JNumber 37.75, JNumber 55.75]),
                (''layer_type'', JString ''ndvi'')])
      empty_world)) \<notin> {500, 400}
 \<and> http_status (fst (post_get_image sample_libs sample_config
      (JObject [(''bbox'', JArray [JBool True, JNumber 55.5, JNumber 37.75, JNumber 55.75]),
                (''layer_type'', JString ''ndvi'')])
      empty_world)) = 200
 \<and> http_status (fst (post_get_image sample_libs sample_config
      (JObject [(''bbox'', JArray [JString ''37.5'', JNumber 55.5, JNumber 37.75, JNumber 55.75]),
                (''layer_type'', JString ''ndvi'')])
      empty_world)) = 200"
  by (simp add: post_get_image_def validate_BboxRequest_def layer_types_def sample_libs_def
      sentinelhub_BBox_def get_image_def get_image_try_def EVALSCRIPTS_def truthy_def
      evalscript_ndvi_nonempty Image_save_path_def empty_world_def str_to_real_sample)

text \<open>
  C8, amended: with pydantic validating the floats and sentinelhub constructing the BBox,
  every POST /get-image request whose \<open>bbox\<close> is a list with an entry that is
  \<^verbatim>\<open>null\<close>, an array, an object or a string that does not parse as a float is
  rejected by the validation of the request model, with status 422 and the state unchanged;
  every request whose \<open>bbox\<close> is a list of a length other than four is answered with
  status 422 or 500, and with 500 and the message of BBox's exception as detail when it
  passes validation. None of these answers is a 200, and none is a 400. (Entries that the
  validation converts to a float, booleans and strings that parse as a float, count as
  numbers.)
\<close>

theorem malformed_bbox:
  "(json_field body ''bbox'' = Some (JArray js)
      \<and> (\<exists>j \<in> set js. j = JNull \<or> (\<exists>a. j = JArray a) \<or> (\<exists>kvs. j = JObject kvs)
                        \<or> (\<exists>t. j = JString t \<and> fs t = None))
    \<longrightarrow> post_get_image (with_pydantic_and_sentinelhub fb fs four refusal L) config body s =
          (ValidationError, s)
      \<and> http_status (fst (post_get_image (with_pydantic_and_sentinelhub fb fs four refusal L)
                             config body s)) = 422)
 \<and> (json_field body ''bbox'' = Some (JArray js) \<and> length js \<noteq> 4
    \<longrightarrow> http_status (fst (post_get_image (with_pydantic_and_sentinelhub fb fs four refusal L)
                             config body s)) \<in> {422, 500})
 \<and> (validate_BboxRequest (pydantic_float fb fs) body = Some request
      \<and> length (bbox request) \<noteq> 4
    \<longrightarrow> post_get_image (with_pydantic_and_sentinelhub fb fs four refusal L) config body s =
          (Raised (HTTPException 500 (refusal (bbox request))),
           s\<lparr>stdout := stdout s @ [print_prefix @ refusal (bbox request)]\<rparr>))"
proof -
  let ?L = "with_pydantic_and_sentinelhub fb fs four refusal L"
  have v: "float_validate ?L = pydantic_float fb fs"
    and b: "BBox_init ?L = sentinelhub_BBox four refusal"
    by (simp_all add: with_pydantic_and_sentinelhub_def)
  have arity: "post_get_image ?L config body s =
          (Raised (HTTPException 500 (refusal (bbox r))),
           s\<lparr>stdout := stdout s @ [print_prefix @ refusal (bbox r)]\<rparr>)"
    if "validate_BboxRequest (pydantic_float fb fs) body = Some r" and "length (bbox r) \<noteq> 4"
    for r
  proof -
    from that(2) have "BBox_init ?L (bbox r) WGS84 = Inl (refusal (bbox r))"
      by (simp add: b sentinelhub_BBox_def)
    then have "get_image_try ?L config r s = (Inl (Exception (refusal (bbox r))), s)"
      by (rule get_image_try_BBox_raises)
    from get_image_Inl [OF this] that(1) show ?thesis
      by (simp add: post_get_image_def v str_exc_def)
  qed
  have entry: "post_get_image ?L config body s = (ValidationError, s)"
    if "json_field body ''bbox'' = Some (JArray js)"
      and "\<exists>j \<in> set js. j = JNull \<or> (\<exists>a. j = JArray a) \<or> (\<exists>kvs. j = JObject kvs)
                        \<or> (\<exists>t. j = JString t \<and> fs t = None)"
  proof -
    from that(2) obtain j where "j \<in> set js" and "pydantic_float fb fs j = None"
      by auto
    then have "None \<in> set (map (pydantic_float fb fs) js)"
      by (metis image_eqI set_map)
    then have "validate_bbox (pydantic_float fb fs) (JArray js) = None"
      by (simp add: those_None)
    with that(1) show ?thesis
      by (simp add: post_get_image_def v validate_BboxRequest_def split: option.splits)
  qed
  have wrong: "http_status (fst (post_get_image ?L config body s)) \<in> {422, 500}"
    if j: "json_field body ''bbox'' = Some (JArray js)" and n: "length js \<noteq> 4"
  proof (cases "validate_BboxRequest (pydantic_float fb fs) body")
    case None
    then show ?thesis
      by (simp add: post_get_image_def v)
  next
    case (Some r)
    from validate_BboxRequest_Some(3) [OF Some] j
    have "validate_bbox (pydantic_float fb fs) (JArray js) = Some (bbox r)"
      by auto
    with n have "length (bbox r) \<noteq> 4"
      by (auto dest: those_length)
    from arity [OF Some this] show ?thesis
      by simp
  qed
  from arity entry wrong show ?thesis
    by simp
qed

theorem malformed_bbox_witness:
  "post_get_image sample_libs sample_config
      (JObject [(''bbox'', JArray [JNull, JNumber 55.5, JNumber 37.75, JNumber 55.75]),
                (''layer_type'', JString ''ndvi'')])
      empty_world = (ValidationError, empty_world)
 \<and> http_status (fst (post_get_image sample_libs sample_config
      (JObject [(''bbox'', JArray [JNumber 37.5, JNumber 55.5, JNumber 37.75]),
                (''layer_type'', JString ''ndvi'')])
      empty_world)) = 500
 \<and> files (snd (post_get_image sample_libs sample_config
      (JObject [(''bbox'', JArray [JNumber 37.5, JNumber 55.5, JNumber 37.75]),
                (''layer_type'', JString ''ndvi'')])
      empty_world)) = files empty_world"
proof -
  note m = malformed_bbox [where fb = of_bool and fs = str_to_real
      and four = "\<lambda>xs crs. Inr xs" and refusal = BBox_refusal_sample and L = sample_libs
      and config = sample_config and s = empty_world, unfolded sample_libs_shape]
  have a: "post_get_image sample_libs sample_config
      (JObject [(''bbox'', JArray [JNull, JNumber 55.5, JNumber 37.75, JNumber 55.75]),
                (''layer_type'', JString ''ndvi'')])
      empty_world = (ValidationError, empty_world)"
    using m [where body =
        "JObject [(''bbox'', JArray [JNull, JNumber 55.5, JNumber 37.75, JNumber 55.75]),
                  (''layer_type'', JString ''ndvi'')]"
        and js = "[JNull, JNumber 55.5, JNumber 37.75, JNumber 55.75]"
        and request = sample_request]
    by simp
  have b: "post_get_image sample_libs sample_config
      (JObject [(''bbox'', JArray [JNumber 37.5, JNumber 55.5, JNumber 37.75]),
                (''layer_type'', JString ''ndvi'')])
      empty_world =
      (Raised (HTTPException 500 (BBox_refusal_sample [37.5, 55.5, 37.75])),
       empty_world\<lparr>stdout := [print_prefix @ BBox_refusal_sample [37.5, 55.5, 37.75]]\<rparr>)"
    using m [where body =
        "JObject [(''bbox'', JArray [JNumber 37.5, JNumber 55.5, JNumber 37.75]),
                  (''layer_type'', JString ''ndvi'')]"
        and js = "[JNumber 37.5, JNumber 55.5, JNumber 37.75]"
        and request = "\<lparr>bbox = [37.5, 55.5, 37.75], layer_type = ''ndvi''\<rparr>"]
    by (simp add: validate_BboxRequest_def layer_types_def empty_world_def)
  from a b show ?thesis by simp
qed

subsection \<open>C9: the handler never answers 400\<close>

text \<open>
  C9: for every body that passes the validation of the request model, the status of the
  answer to POST /get-image is 200 or 500. An HTTPException that leaves the
  \<^verbatim>\<open>try\<close> block is caught by \<^verbatim>\<open>except Exception\<close> and replaced by one with
  status 500 whose detail is its \<^verbatim>\<open>str\<close>; so is the one with status 400 that the
  block raises when no script is selected.
\<close>

theorem get_image_never_400:
  "(validate_BboxRequest (float_validate L) body = Some request
    \<longrightarrow> http_status (fst (post_get_image L config body s)) \<in> {200, 500})
 \<and> (get_image_try L config request' s = (Inl (HTTPException c d), s1)
    \<longrightarrow> fst (get_image L config request' s) = Inl (HTTPException 500 (str_HTTPException L c d)))
 \<and> (BBox_init L (bbox request') WGS84 = Inr b \<and> \<not> truthy (EVALSCRIPTS (layer_type request'))
    \<longrightarrow> fst (get_image L config request' s) =
          Inl (HTTPException 500 (str_HTTPException L 400 detail_400)))"
proof (intro conjI impI)
  assume "validate_BboxRequest (float_validate L) body = Some request"
  then have "fst (post_get_image L config body s) =
      (case fst (get_image L config request s) of Inl e \<Rightarrow> Raised e | Inr r \<Rightarrow> Streamed r)"
    by (simp add: post_get_image_def split: prod.splits sum.splits)
  with get_image_status [of L config request s]
  show "http_status (fst (post_get_image L config body s)) \<in> {200, 500}"
    by auto
next
  assume "get_image_try L config request' s = (Inl (HTTPException c d), s1)"
  from get_image_Inl [OF this]
  show "fst (get_image L config request' s) = Inl (HTTPException 500 (str_HTTPException L c d))"
    by (simp add: str_exc_def)
next
  assume "BBox_init L (bbox request') WGS84 = Inr b \<and> \<not> truthy (EVALSCRIPTS (layer_type request'))"
  then have "get_image_try L config request' s = (Inl (HTTPException 400 detail_400), s)"
    by (simp add: get_image_try_def)
  from get_image_Inl [OF this]
  show "fst (get_image L config request' s) =
          Inl (HTTPException 500 (str_HTTPException L 400 detail_400))"
    by (simp add: str_exc_def)
qed

theorem get_image_never_400_witness:
  "http_status (fst (post_get_image sample_libs sample_config sample_body empty_world)) \<in> {200, 500}
 \<and> fst (get_image sample_libs sample_config
            \<lparr>bbox = [37.5, 55.5, 37.75, 55.75], layer_type = ''foo''\<rparr> empty_world) =
     Inl (HTTPException 500 (''400: '' @ detail_400))"
proof -
  have t: "get_image_try sample_libs sample_config
             \<lparr>bbox = [37.5, 55.5, 37.75, 55.75], layer_type = ''foo''\<rparr> empty_world =
           (Inl (HTTPException 400 detail_400), empty_world)"
    by (simp add: get_image_try_def sample_libs_def sentinelhub_BBox_def EVALSCRIPTS_def truthy_def)
  have "\<not> truthy (EVALSCRIPTS ''foo'')"
    by (simp add: EVALSCRIPTS_def truthy_def)
  with t sample_validate
    get_image_never_400 [of sample_libs sample_body sample_request sample_config empty_world
      "\<lparr>bbox = [37.5, 55.5, 37.75, 55.75], layer_type = ''foo''\<rparr>" 400 detail_400 empty_world
      "[37.5, 55.5, 37.75, 55.75]"]
  show ?thesis
    by (simp add: sample_libs_def sentinelhub_BBox_def str_int_def str_nat.simps [of 400] str_nat.simps [of 40]
        str_nat.simps [of 4])
qed

subsection \<open>C10: the download is read-only\<close>

text \<open>
  C10: in every state, the handler of GET /download-image returns the file response with
  path \<open>last_image.png\<close>, file name \<open>sentinel_snapshot.png\<close> and media type
  \<open>image/png\<close>, and neither the handler nor the sending of its response changes the state
  (the files, the output, the requests made to the provider).
\<close>

theorem download_image_read_only:
  "download_image s =
     (Inr \<lparr>fr_path = ''last_image.png'', fr_filename = ''sentinel_snapshot.png'',
            fr_media_type = ''image/png''\<rparr>, s)
 \<and> snd (get_download_image s) = s"
  by (simp add: download_image_def get_download_image_def)

end
